theory Spec2Isabelle
  imports Complex_Main "HOL-Library.Log_Nat"
begin

section \<open>The SIP collector of asterisk_exporter\<close>

text \<open>
  A shallow embedding of \<^verbatim>\<open>collector/sip_collector.go\<close>. The collector turns the four
  fragments a \<^verbatim>\<open>cmd.CmdRunner\<close> returns into Prometheus samples and sends them on a channel.

  What the embedding makes explicit:
  \<^item> a call of \<^verbatim>\<open>Describe\<close> or \<^verbatim>\<open>Collect\<close> is the list of values it sends on \<^verbatim>\<open>ch\<close>, in
    program order, together with the panic that ended the call, if one did;
  \<^item> a Go pointer is an \<open>option\<close>, \<open>None\<close> being \<^verbatim>\<open>nil\<close>; reading a field through \<^verbatim>\<open>nil\<close>
    panics;
  \<^item> a \<^verbatim>\<open>(value, error)\<close> result is a sum, \<open>Inl\<close> the non-nil error.
  The logger is left out: the log lines are no part of what is sent on the channel.
\<close>

subsection \<open>The Prometheus client library\<close>

text \<open>
  The library is not part of the repository. Its descriptor is the triple the data model
  names (fully-qualified name, help text, label names) with the constant labels
  \<^verbatim>\<open>NewDesc\<close> also takes; a sample is a descriptor, a value type, a value and the label values.
  Of the checks of \<^verbatim>\<open>NewConstMetric\<close> the model keeps the one the data model states: the
  number of label values must be the number of label names of the descriptor.
  \<^verbatim>\<open>MustNewConstMetric\<close> panics when it is not. The library's checks of the characters of
  names and label values are not modelled.
\<close>

record Desc =
  fqName :: string
  helpText :: string
  variableLabels :: "string list"
  constLabels :: "(string \<times> string) list"

datatype ValueType = CounterValue | GaugeValue | UntypedValue

record Metric =
  desc :: Desc
  valType :: ValueType
  val :: real
  labelValues :: "string list"

datatype panic = NilPointerDereference | InconsistentCardinality

text \<open>
  \<^verbatim>\<open>BuildFQName\<close> joins the non-empty parts with an underscore, and gives the empty name
  when the metric name is empty.
\<close>

definition BuildFQName :: "string \<Rightarrow> string \<Rightarrow> string \<Rightarrow> string" where
  "BuildFQName namespace subsystem name =
     (if name = [] then []
      else if namespace \<noteq> [] \<and> subsystem \<noteq> [] then namespace @ ''_'' @ subsystem @ ''_'' @ name
      else if namespace \<noteq> [] then namespace @ ''_'' @ name
      else if subsystem \<noteq> [] then subsystem @ ''_'' @ name
      else name)"

definition NewDesc :: "string \<Rightarrow> string \<Rightarrow> string list \<Rightarrow> (string \<times> string) list \<Rightarrow> Desc" where
  "NewDesc fq h vls cls = \<lparr>fqName = fq, helpText = h, variableLabels = vls, constLabels = cls\<rparr>"

definition MustNewConstMetric :: "Desc \<Rightarrow> ValueType \<Rightarrow> real \<Rightarrow> string list \<Rightarrow> panic + Metric" where
  "MustNewConstMetric d vt v lvs =
     (if length lvs \<noteq> length (variableLabels d) then Inl InconsistentCardinality
      else Inr \<lparr>desc = d, valType = vt, val = v, labelValues = lvs\<rparr>)"

text \<open>
  The conversion \<^verbatim>\<open>float64(n)\<close> of an integer: exact up to \<open>2 ^ 53\<close> in absolute value,
  beyond that the nearest value with a 53-bit significand, ties to the even one. The
  counts are mathematical integers here; a Go integer has at most 64 bits, so the
  conversion never overflows.
\<close>

definition float64 :: "int \<Rightarrow> real" where
  "float64 n =
     (if \<bar>n\<bar> \<le> 2 ^ 53 then real_of_int n
      else let e = nat (bitlen \<bar>n\<bar> - 53);
               q = \<bar>n\<bar> div 2 ^ e;
               r = \<bar>n\<bar> mod 2 ^ e;
               h = 2 ^ (e - 1);
               q' = (if r < h \<or> (r = h \<and> even q) then q else q + 1)
           in real_of_int (sgn n * q' * 2 ^ e))"

subsection \<open>Sending on the channel\<close>

text \<open>
  A statement \<^verbatim>\<open>ch <- e\<close> either panics while \<^verbatim>\<open>e\<close> is evaluated or sends the value of
  \<^verbatim>\<open>e\<close>. \<open>exec\<close> runs such statements in order and stops at the first panic: its result
  is what was sent, and the panic if there was one.
\<close>

type_synonym 'a stmt = "panic + 'a"

type_synonym 'a outcome = "'a list \<times> panic option"

fun exec :: "'a stmt list \<Rightarrow> 'a outcome" where
  "exec [] = ([], None)"
| "exec (Inl p # rest) = ([], Some p)"
| "exec (Inr m # rest) = (m # fst (exec rest), snd (exec rest))"

text \<open>Reading fields through a pointer: the statements that do panic when it is \<^verbatim>\<open>nil\<close>.\<close>

definition deref :: "'a option \<Rightarrow> ('a \<Rightarrow> 'b stmt list) \<Rightarrow> 'b stmt list" where
  "deref ptr body = (case ptr of None \<Rightarrow> [Inl NilPointerDereference] | Some x \<Rightarrow> body x)"

subsection \<open>The data source\<close>

text \<open>
  Package \<^verbatim>\<open>cmd\<close> is not among the sources. Its types are taken from their use in the
  collector: four structs of integer counts, two of them with a slice of entities that
  carry two strings each. A \<^verbatim>\<open>CmdRunner\<close> is what its four queries return on one scrape;
  each returns a pointer and nothing else, so a query has no error to report.
\<close>

record Peer =
  Name :: string
  Status :: string

record PeersInfo =
  MonitoredOnline :: int
  MonitoredOffline :: int
  UnmonitoredOnline :: int
  UnmonitoredOffline :: int
  PeersStatusUnknown :: int
  PeersStatusQualified :: int
  IndividualPeers :: "Peer list"

record SipChannelsInfo =
  ActiveSipDialogs :: int
  ActiveSipSubscriptions :: int
  ActiveSipChannels :: int

record UsersInfo =
  Users :: int

record Registration =
  Username :: string
  State :: string

record RegistriesInfo =
  TotalRegistrations :: int
  OnlineRegistrations :: int
  OfflineRegistrations :: int
  IndividualRegistrations :: "Registration list"

record CmdRunner =
  runPeersInfo :: "PeersInfo option"
  runSipChannelsInfo :: "SipChannelsInfo option"
  runUsersInfo :: "UsersInfo option"
  runRegistriesInfo :: "RegistriesInfo option"

subsection \<open>The collector\<close>

record sipCollector =
  cmdRunner :: CmdRunner
  totalPeers :: Desc
  totalMonitoredOnline :: Desc
  totalMonitoredOffline :: Desc
  totalUnmonitoredOnline :: Desc
  totalUnmonitoredOffline :: Desc
  totalSipStatusUnknown :: Desc
  totalSipStatusQualified :: Desc
  peerStatus :: Desc
  dialogsActive :: Desc
  subscriptionsActive :: Desc
  channelsActive :: Desc
  users :: Desc
  totalRegistrations :: Desc
  onlineRegistrationsCount :: Desc
  offlineRegistrationsCount :: Desc
  registrationStatus :: Desc
  collectorError :: Desc

record sipMetrics =
  PeersInfo :: "PeersInfo option"
  SipChannelsInfo :: "SipChannelsInfo option"
  UsersInfo :: "UsersInfo option"
  RegistriesInfo :: "RegistriesInfo option"

definition NewSipCollector :: "string \<Rightarrow> CmdRunner \<Rightarrow> Desc \<Rightarrow> sipCollector" where
  "NewSipCollector prefix runner collErr =
     \<lparr>cmdRunner = runner,
      totalPeers = NewDesc (BuildFQName prefix ''sip'' ''current_peers'')
        ''Number of SIP peers'' [] [],
      totalMonitoredOnline = NewDesc (BuildFQName prefix ''sip'' ''current_monitored_online'')
        ''Number of currently monitored online SIP'' [] [],
      totalMonitoredOffline = NewDesc (BuildFQName prefix ''sip'' ''current_monitored_offline'')
        ''Number of currently monitored offline SIP'' [] [],
      totalUnmonitoredOnline = NewDesc (BuildFQName prefix ''sip'' ''current_unmonitored_online'')
        ''Number of currently unmonitored online SIP'' [] [],
      totalUnmonitoredOffline = NewDesc (BuildFQName prefix ''sip'' ''current_unmonitored_offline'')
        ''Number of currently unmonitored offline SIP'' [] [],
      totalSipStatusUnknown = NewDesc (BuildFQName prefix ''sip'' ''current_unknown'')
        ''Current number of unknown SIP'' [] [],
      totalSipStatusQualified = NewDesc (BuildFQName prefix ''sip'' ''current_qualified'')
        ''Current number of qualified SIP'' [] [],
      peerStatus = NewDesc (BuildFQName prefix ''sip'' ''peer_status'')
        ''Status of individual SIP peers'' [''peer_name'', ''peer_status''] [],
      dialogsActive = NewDesc (BuildFQName prefix ''sip'' ''active_dialogs'')
        ''Number of active SIP dialogs'' [] [],
      subscriptionsActive = NewDesc (BuildFQName prefix ''sip'' ''active_subscriptions'')
        ''Number of active SIP subscriptions'' [] [],
      channelsActive = NewDesc (BuildFQName prefix ''sip'' ''active_channels'')
        ''Number of active SIP channels'' [] [],
      users = NewDesc (BuildFQName prefix ''sip'' ''users'')
        ''Number of users'' [] [],
      totalRegistrations = NewDesc (BuildFQName prefix ''sip'' ''total_registrations'')
        ''Total number of SIP registrations'' [] [],
      onlineRegistrationsCount = NewDesc (BuildFQName prefix ''sip'' ''registered_count'')
        ''Number of successfully registered SIP accounts'' [] [],
      offlineRegistrationsCount = NewDesc (BuildFQName prefix ''sip'' ''unregistered_count'')
        ''Number of unregistered SIP accounts'' [] [],
      registrationStatus = NewDesc (BuildFQName prefix ''sip'' ''registration_status'')
        ''Status of individual SIP registrations'' [''username'', ''state''] [],
      collectorError = collErr\<rparr>"

definition sipCollector_Name :: "sipCollector \<Rightarrow> string" where
  "sipCollector_Name c = ''sip''"

definition Describe :: "sipCollector \<Rightarrow> Desc outcome" where
  "Describe c = exec
     [Inr (totalPeers c),
      Inr (totalMonitoredOnline c),
      Inr (totalMonitoredOffline c),
      Inr (totalUnmonitoredOnline c),
      Inr (totalUnmonitoredOffline c),
      Inr (totalSipStatusUnknown c),
      Inr (totalSipStatusQualified c),
      Inr (peerStatus c),
      Inr (dialogsActive c),
      Inr (subscriptionsActive c),
      Inr (channelsActive c),
      Inr (users c),
      Inr (totalRegistrations c),
      Inr (onlineRegistrationsCount c),
      Inr (offlineRegistrationsCount c),
      Inr (registrationStatus c)]"

text \<open>
  \<^verbatim>\<open>collectSipMetrics\<close> stores the four pointers and returns them with a \<^verbatim>\<open>nil\<close> error.
  The error type has no value the function could build, so it stays a type variable.
\<close>

definition collectSipMetrics :: "CmdRunner \<Rightarrow> 'e + sipMetrics" where
  "collectSipMetrics c =
     Inr \<lparr>PeersInfo = runPeersInfo c,
          SipChannelsInfo = runSipChannelsInfo c,
          UsersInfo = runUsersInfo c,
          RegistriesInfo = runRegistriesInfo c\<rparr>"

text \<open>
  The statements of \<^verbatim>\<open>updateMetrics\<close> in program order. The first read through each
  fragment pointer is the first statement of its block, so a \<^verbatim>\<open>nil\<close> fragment panics
  there, after everything before it has been sent.
\<close>

definition updateMetrics_stmts :: "sipCollector \<Rightarrow> sipMetrics \<Rightarrow> Metric stmt list" where
  "updateMetrics_stmts c vals =
     deref (PeersInfo vals) (\<lambda>p.
       [MustNewConstMetric (totalMonitoredOnline c) GaugeValue (float64 (MonitoredOnline p)) [],
        MustNewConstMetric (totalMonitoredOffline c) GaugeValue (float64 (MonitoredOffline p)) [],
        MustNewConstMetric (totalUnmonitoredOnline c) GaugeValue (float64 (UnmonitoredOnline p)) [],
        MustNewConstMetric (totalUnmonitoredOffline c) GaugeValue (float64 (UnmonitoredOffline p)) [],
        MustNewConstMetric (totalSipStatusUnknown c) GaugeValue (float64 (PeersStatusUnknown p)) [],
        MustNewConstMetric (totalSipStatusQualified c) GaugeValue (float64 (PeersStatusQualified p)) []]
       @ map (\<lambda>peer. MustNewConstMetric (peerStatus c) GaugeValue 1 [Name peer, Status peer])
           (IndividualPeers p))
     @ deref (SipChannelsInfo vals) (\<lambda>s.
       [MustNewConstMetric (dialogsActive c) GaugeValue (float64 (ActiveSipDialogs s)) [],
        MustNewConstMetric (subscriptionsActive c) GaugeValue (float64 (ActiveSipSubscriptions s)) [],
        MustNewConstMetric (channelsActive c) GaugeValue (float64 (ActiveSipChannels s)) []])
     @ deref (UsersInfo vals) (\<lambda>u.
       [MustNewConstMetric (users c) GaugeValue (float64 (Users u)) []])
     @ deref (RegistriesInfo vals) (\<lambda>g.
       [MustNewConstMetric (totalRegistrations c) GaugeValue (float64 (TotalRegistrations g)) [],
        MustNewConstMetric (onlineRegistrationsCount c) GaugeValue (float64 (OnlineRegistrations g)) [],
        MustNewConstMetric (offlineRegistrationsCount c) GaugeValue (float64 (OfflineRegistrations g)) []]
       @ map (\<lambda>registry. MustNewConstMetric (registrationStatus c) GaugeValue 1
                [Username registry, State registry])
           (IndividualRegistrations g))"

definition updateMetrics :: "sipCollector \<Rightarrow> sipMetrics \<Rightarrow> Metric outcome" where
  "updateMetrics c vals = exec (updateMetrics_stmts c vals)"

text \<open>
  \<^verbatim>\<open>Collect\<close> from the test of \<^verbatim>\<open>err\<close> on: \<open>Collect_from c res\<close> is what the method does once
  the fetch has returned \<open>res\<close>. \<open>sipCollector_Collect\<close> is the whole method, the fetch by
  \<open>collectSipMetrics\<close> included. (The methods \<^verbatim>\<open>Name\<close> and \<^verbatim>\<open>Collect\<close> carry the receiver's
  type in their names here: \<open>Name\<close> is a field of a peer, \<open>Collect\<close> is the set comprehension
  of HOL.)
\<close>

definition Collect_from :: "sipCollector \<Rightarrow> 'e + sipMetrics \<Rightarrow> Metric outcome" where
  "Collect_from c res =
     (case res of
        Inl err \<Rightarrow>
          exec [MustNewConstMetric (collectorError c) GaugeValue 1 [sipCollector_Name c]]
      | Inr metrics \<Rightarrow>
          exec (MustNewConstMetric (collectorError c) GaugeValue 0 [sipCollector_Name c]
                # updateMetrics_stmts c metrics))"

definition sipCollector_Collect :: "sipCollector \<Rightarrow> Metric outcome" where
  "sipCollector_Collect c = Collect_from c (collectSipMetrics (cmdRunner c) :: unit + sipMetrics)"

subsection \<open>Notation for the statements\<close>

text \<open>
  A gauge sample; a runner all of whose queries return a fragment, and one all of whose
  queries return \<^verbatim>\<open>nil\<close>; the peers fragment with the two peers alice and bob; a health
  descriptor with one label; a collector built from them, with no dialogs, users or
  registrations; and the snapshot of its runner.
\<close>

abbreviation gauge :: "Desc \<Rightarrow> real \<Rightarrow> string list \<Rightarrow> Metric" where
  "gauge d v lvs \<equiv> \<lparr>desc = d, valType = GaugeValue, val = v, labelValues = lvs\<rparr>"

abbreviation present :: "PeersInfo \<Rightarrow> SipChannelsInfo \<Rightarrow> UsersInfo \<Rightarrow> RegistriesInfo \<Rightarrow> CmdRunner" where
  "present pe s u g \<equiv>
     \<lparr>runPeersInfo = Some pe, runSipChannelsInfo = Some s, runUsersInfo = Some u,
      runRegistriesInfo = Some g\<rparr>"

abbreviation all_nil :: CmdRunner where
  "all_nil \<equiv>
     \<lparr>runPeersInfo = None, runSipChannelsInfo = None, runUsersInfo = None,
      runRegistriesInfo = None\<rparr>"

abbreviation alice_bob_peers :: "int \<Rightarrow> int \<Rightarrow> PeersInfo" where
  "alice_bob_peers uo uf \<equiv>
     \<lparr>MonitoredOnline = 3, MonitoredOffline = 1, UnmonitoredOnline = uo, UnmonitoredOffline = uf,
      PeersStatusUnknown = 0, PeersStatusQualified = 2,
      IndividualPeers = [\<lparr>Name = ''alice'', Status = ''OK''\<rparr>, \<lparr>Name = ''bob'', Status = ''UNKNOWN''\<rparr>]\<rparr>"

abbreviation scrape_error :: Desc where
  "scrape_error \<equiv>
     NewDesc (BuildFQName ''asterisk'' ''scrape'' ''collector_error'')
       ''1 if the collector failed, 0 if it succeeded'' [''collector''] []"

abbreviation example_runner :: CmdRunner where
  "example_runner \<equiv>
     present (alice_bob_peers 0 0)
       \<lparr>ActiveSipDialogs = 0, ActiveSipSubscriptions = 0, ActiveSipChannels = 0\<rparr>
       \<lparr>Users = 0\<rparr>
       \<lparr>TotalRegistrations = 0, OnlineRegistrations = 0, OfflineRegistrations = 0,
        IndividualRegistrations = []\<rparr>"

abbreviation example_collector :: sipCollector where
  "example_collector \<equiv> NewSipCollector ''asterisk'' example_runner scrape_error"

abbreviation example_metrics :: sipMetrics where
  "example_metrics \<equiv>
     \<lparr>PeersInfo = Some (alice_bob_peers 0 0),
      SipChannelsInfo = Some \<lparr>ActiveSipDialogs = 0, ActiveSipSubscriptions = 0, ActiveSipChannels = 0\<rparr>,
      UsersInfo = Some \<lparr>Users = 0\<rparr>,
      RegistriesInfo = Some \<lparr>TotalRegistrations = 0, OnlineRegistrations = 0, OfflineRegistrations = 0,
        IndividualRegistrations = []\<rparr>\<rparr>"

section \<open>Properties\<close>

subsection \<open>Running statements\<close>

lemma exec_map_Inr: "exec (map Inr xs @ rest) = (xs @ fst (exec rest), snd (exec rest))"
  by (induction xs) simp_all

lemma exec_all_Inr: "exec (map Inr xs) = (xs, None)"
  using exec_map_Inr [of xs "[]"] by simp

lemma exec_sent_subset: "m \<in> set (fst (exec stmts)) \<Longrightarrow> Inr m \<in> set stmts"
proof (induction stmts rule: exec.induct)
  case 1
  then show ?case by simp
next
  case (2 p rest)
  then show ?case by simp
next
  case (3 x rest)
  then show ?case by auto
qed

lemma MustNewConstMetric_Inr:
  "MustNewConstMetric d vt v lvs = Inr m \<Longrightarrow>
     m = \<lparr>desc = d, valType = vt, val = v, labelValues = lvs\<rparr> \<and> length lvs = length (variableLabels d)"
  by (auto simp: MustNewConstMetric_def split: if_splits)

lemma exec_head_ok:
  "length lvs = length (variableLabels d) \<Longrightarrow>
   exec (MustNewConstMetric d vt v lvs # rest) =
     (\<lparr>desc = d, valType = vt, val = v, labelValues = lvs\<rparr> # fst (exec rest), snd (exec rest))"
  by (simp add: MustNewConstMetric_def)

lemma MustNewConstMetric_shape0:
  "\<exists>d v. MustNewConstMetric d0 GaugeValue v0 [] = MustNewConstMetric d GaugeValue v []"
  by blast

lemma MustNewConstMetric_shape2:
  "\<exists>d v a b. MustNewConstMetric d0 GaugeValue v0 [a0, b0] = MustNewConstMetric d GaugeValue v [a, b]"
  by blast

subsection \<open>The descriptors of a collector\<close>



lemma BuildFQName_sip:
  "n \<noteq> [] \<Longrightarrow> BuildFQName p ''sip'' n = (if p = [] then ''sip_'' @ n else p @ ''_sip_'' @ n)"
  by (simp add: BuildFQName_def)

lemma BuildFQName_sip_inj:
  "n \<noteq> [] \<Longrightarrow> n' \<noteq> [] \<Longrightarrow> BuildFQName p ''sip'' n = BuildFQName p ''sip'' n' \<longleftrightarrow> n = n'"
  by (simp add: BuildFQName_sip)

lemma owned_labels:
  "variableLabels (totalPeers (NewSipCollector p r ce)) = []"
  "variableLabels (totalMonitoredOnline (NewSipCollector p r ce)) = []"
  "variableLabels (totalMonitoredOffline (NewSipCollector p r ce)) = []"
  "variableLabels (totalUnmonitoredOnline (NewSipCollector p r ce)) = []"
  "variableLabels (totalUnmonitoredOffline (NewSipCollector p r ce)) = []"
  "variableLabels (totalSipStatusUnknown (NewSipCollector p r ce)) = []"
  "variableLabels (totalSipStatusQualified (NewSipCollector p r ce)) = []"
  "variableLabels (peerStatus (NewSipCollector p r ce)) = [''peer_name'', ''peer_status'']"
  "variableLabels (dialogsActive (NewSipCollector p r ce)) = []"
  "variableLabels (subscriptionsActive (NewSipCollector p r ce)) = []"
  "variableLabels (channelsActive (NewSipCollector p r ce)) = []"
  "variableLabels (users (NewSipCollector p r ce)) = []"
  "variableLabels (totalRegistrations (NewSipCollector p r ce)) = []"
  "variableLabels (onlineRegistrationsCount (NewSipCollector p r ce)) = []"
  "variableLabels (offlineRegistrationsCount (NewSipCollector p r ce)) = []"
  "variableLabels (registrationStatus (NewSipCollector p r ce)) = [''username'', ''state'']"
  by (simp_all add: NewSipCollector_def NewDesc_def)

lemma injected_fields:
  "collectorError (NewSipCollector p r ce) = ce"
  "cmdRunner (NewSipCollector p r ce) = r"
  by (simp_all add: NewSipCollector_def)

lemma scrape_error_labels: "length (variableLabels scrape_error) = 1"
  by (simp add: NewDesc_def)

lemma example_health: "length (variableLabels (collectorError example_collector)) = 1"
  by (simp add: injected_fields scrape_error_labels)

subsection \<open>The statements of \<open>updateMetrics\<close>\<close>

lemma updateMetrics_stmts_cases:
  assumes "x \<in> set (updateMetrics_stmts c vals)"
  shows "x = Inl NilPointerDereference \<or> (\<exists>d v. x = MustNewConstMetric d GaugeValue v [])
         \<or> (\<exists>d v a b. x = MustNewConstMetric d GaugeValue v [a, b])"
  using assms
  by (auto simp: updateMetrics_stmts_def deref_def MustNewConstMetric_shape0 MustNewConstMetric_shape2
           split: option.splits)

lemma updateMetrics_stmts_no_failure_sample:
  "Inr \<lparr>desc = d, valType = vt, val = v, labelValues = [a]\<rparr> \<notin> set (updateMetrics_stmts c vals)"
proof
  assume "Inr \<lparr>desc = d, valType = vt, val = v, labelValues = [a]\<rparr> \<in> set (updateMetrics_stmts c vals)"
  from updateMetrics_stmts_cases [OF this] show False
    by (auto simp: MustNewConstMetric_def split: if_splits)
qed

lemma updateMetrics_stmts_owned_ok:
  "Inl InconsistentCardinality \<notin> set (updateMetrics_stmts (NewSipCollector p r ce) vals)"
  by (auto simp: updateMetrics_stmts_def deref_def MustNewConstMetric_def owned_labels
           split: option.splits)

lemma updateMetrics_stmts_not_totalPeers:
  assumes "Inr m \<in> set (updateMetrics_stmts (NewSipCollector p r ce) vals)"
  shows "desc m \<noteq> totalPeers (NewSipCollector p r ce)"
  using assms
  by (auto simp: updateMetrics_stmts_def deref_def MustNewConstMetric_def NewSipCollector_def
        NewDesc_def split: option.splits if_splits)

text \<open>With the four fragments present every statement sends: nothing panics.\<close>

lemma updateMetrics_stmts_present:
  "updateMetrics_stmts (NewSipCollector p r ce)
     \<lparr>PeersInfo = Some pe, SipChannelsInfo = Some s, UsersInfo = Some u, RegistriesInfo = Some g\<rparr> =
   map Inr
    ([gauge (totalMonitoredOnline (NewSipCollector p r ce)) (float64 (MonitoredOnline pe)) [],
      gauge (totalMonitoredOffline (NewSipCollector p r ce)) (float64 (MonitoredOffline pe)) [],
      gauge (totalUnmonitoredOnline (NewSipCollector p r ce)) (float64 (UnmonitoredOnline pe)) [],
      gauge (totalUnmonitoredOffline (NewSipCollector p r ce)) (float64 (UnmonitoredOffline pe)) [],
      gauge (totalSipStatusUnknown (NewSipCollector p r ce)) (float64 (PeersStatusUnknown pe)) [],
      gauge (totalSipStatusQualified (NewSipCollector p r ce)) (float64 (PeersStatusQualified pe)) []]
     @ map (\<lambda>peer. gauge (peerStatus (NewSipCollector p r ce)) 1 [Name peer, Status peer])
         (IndividualPeers pe)
     @ [gauge (dialogsActive (NewSipCollector p r ce)) (float64 (ActiveSipDialogs s)) [],
        gauge (subscriptionsActive (NewSipCollector p r ce)) (float64 (ActiveSipSubscriptions s)) [],
        gauge (channelsActive (NewSipCollector p r ce)) (float64 (ActiveSipChannels s)) [],
        gauge (users (NewSipCollector p r ce)) (float64 (Users u)) [],
        gauge (totalRegistrations (NewSipCollector p r ce)) (float64 (TotalRegistrations g)) [],
        gauge (onlineRegistrationsCount (NewSipCollector p r ce)) (float64 (OnlineRegistrations g)) [],
        gauge (offlineRegistrationsCount (NewSipCollector p r ce)) (float64 (OfflineRegistrations g)) []]
     @ map (\<lambda>registry. gauge (registrationStatus (NewSipCollector p r ce)) 1
              [Username registry, State registry])
         (IndividualRegistrations g))"
  by (simp add: updateMetrics_stmts_def deref_def MustNewConstMetric_def owned_labels)

text \<open>
  The whole of a scrape on present fragments, by a collector whose health descriptor has
  one label: the health sample, six counts of peers, a sample for each peer, seven more
  counts, a sample for each registration.
\<close>

lemma sipCollector_Collect_present:
  assumes "length (variableLabels ce) = 1"
  shows "sipCollector_Collect (NewSipCollector p (present pe s u g) ce) =
     (gauge ce 0 [''sip'']
      # [gauge (NewDesc (BuildFQName p ''sip'' ''current_monitored_online'')
           ''Number of currently monitored online SIP'' [] []) (float64 (MonitoredOnline pe)) [],
         gauge (NewDesc (BuildFQName p ''sip'' ''current_monitored_offline'')
           ''Number of currently monitored offline SIP'' [] []) (float64 (MonitoredOffline pe)) [],
         gauge (NewDesc (BuildFQName p ''sip'' ''current_unmonitored_online'')
           ''Number of currently unmonitored online SIP'' [] []) (float64 (UnmonitoredOnline pe)) [],
         gauge (NewDesc (BuildFQName p ''sip'' ''current_unmonitored_offline'')
           ''Number of currently unmonitored offline SIP'' [] []) (float64 (UnmonitoredOffline pe)) [],
         gauge (NewDesc (BuildFQName p ''sip'' ''current_unknown'')
           ''Current number of unknown SIP'' [] []) (float64 (PeersStatusUnknown pe)) [],
         gauge (NewDesc (BuildFQName p ''sip'' ''current_qualified'')
           ''Current number of qualified SIP'' [] []) (float64 (PeersStatusQualified pe)) []]
      @ map (\<lambda>peer. gauge (NewDesc (BuildFQName p ''sip'' ''peer_status'')
               ''Status of individual SIP peers'' [''peer_name'', ''peer_status''] []) 1
               [Name peer, Status peer]) (IndividualPeers pe)
      @ [gauge (NewDesc (BuildFQName p ''sip'' ''active_dialogs'')
           ''Number of active SIP dialogs'' [] []) (float64 (ActiveSipDialogs s)) [],
         gauge (NewDesc (BuildFQName p ''sip'' ''active_subscriptions'')
           ''Number of active SIP subscriptions'' [] []) (float64 (ActiveSipSubscriptions s)) [],
         gauge (NewDesc (BuildFQName p ''sip'' ''active_channels'')
           ''Number of active SIP channels'' [] []) (float64 (ActiveSipChannels s)) [],
         gauge (NewDesc (BuildFQName p ''sip'' ''users'')
           ''Number of users'' [] []) (float64 (Users u)) [],
         gauge (NewDesc (BuildFQName p ''sip'' ''total_registrations'')
           ''Total number of SIP registrations'' [] []) (float64 (TotalRegistrations g)) [],
         gauge (NewDesc (BuildFQName p ''sip'' ''registered_count'')
           ''Number of successfully registered SIP accounts'' [] []) (float64 (OnlineRegistrations g)) [],
         gauge (NewDesc (BuildFQName p ''sip'' ''unregistered_count'')
           ''Number of unregistered SIP accounts'' [] []) (float64 (OfflineRegistrations g)) []]
      @ map (\<lambda>registry. gauge (NewDesc (BuildFQName p ''sip'' ''registration_status'')
               ''Status of individual SIP registrations'' [''username'', ''state''] []) 1
               [Username registry, State registry]) (IndividualRegistrations g),
      None)"
proof -
  let ?c = "NewSipCollector p (present pe s u g) ce"
  let ?vals = "\<lparr>PeersInfo = Some pe, SipChannelsInfo = Some s, UsersInfo = Some u,
                RegistriesInfo = Some g\<rparr>"
  have "sipCollector_Collect ?c =
          exec (MustNewConstMetric ce GaugeValue 0 [''sip''] # updateMetrics_stmts ?c ?vals)"
    by (simp add: sipCollector_Collect_def collectSipMetrics_def Collect_from_def injected_fields
          sipCollector_Name_def)
  also have "\<dots> = (gauge ce 0 [''sip''] # fst (exec (updateMetrics_stmts ?c ?vals)),
                    snd (exec (updateMetrics_stmts ?c ?vals)))"
    using assms by (simp add: exec_head_ok)
  finally show ?thesis
    unfolding updateMetrics_stmts_present exec_all_Inr
    by (simp add: NewSipCollector_def)
qed


lemma Collect_from_example:
  "Collect_from example_collector (Inr example_metrics) =
     (gauge scrape_error 0 [''sip''] # fst (updateMetrics example_collector example_metrics),
      snd (updateMetrics example_collector example_metrics))"
  by (simp add: Collect_from_def exec_head_ok sipCollector_Name_def updateMetrics_def injected_fields
        scrape_error_labels)

subsection \<open>The two branches of \<open>Collect\<close>\<close>

text \<open>
  The health descriptor is handed to the constructor. \<^verbatim>\<open>Collect\<close> passes one label value with
  it, the name of the collector, so the descriptor has to declare one label; with any
  other \<^verbatim>\<open>MustNewConstMetric\<close> panics and nothing is sent.
\<close>

text \<open>
  C1. When the fetch has returned an error, \<^verbatim>\<open>Collect\<close> sends one sample and returns: the
  health descriptor with value 1, labelled with the collector's name. No domain sample is
  sent.
\<close>

theorem Collect_from_error:
  assumes "length (variableLabels (collectorError c)) = 1"
  shows "Collect_from c (Inl err) = ([gauge (collectorError c) 1 [sipCollector_Name c]], None)"
  using assms by (simp add: Collect_from_def exec_head_ok)

theorem Collect_from_error_witness:
  "length (variableLabels (collectorError example_collector)) = 1
   \<and> Collect_from example_collector (Inl ''exit status 1'') = ([gauge scrape_error 1 [''sip'']], None)"
  using example_health Collect_from_error [OF example_health, of "''exit status 1''"]
  by (simp add: injected_fields sipCollector_Name_def)

text \<open>
  C2. When the fetch has returned a snapshot, the first sample \<^verbatim>\<open>Collect\<close> sends is the health
  descriptor with value 0 and the collector's name, \<open>''sip''\<close>, as its label; whatever
  \<^verbatim>\<open>updateMetrics\<close> sends comes after it.
\<close>

theorem Collect_from_success:
  assumes "length (variableLabels (collectorError c)) = 1"
  shows "Collect_from c (Inr metrics) =
           (gauge (collectorError c) 0 [sipCollector_Name c] # fst (updateMetrics c metrics),
            snd (updateMetrics c metrics))
         \<and> sipCollector_Name c = ''sip''"
  using assms by (simp add: Collect_from_def exec_head_ok sipCollector_Name_def updateMetrics_def)

theorem Collect_from_success_witness:
  "length (variableLabels (collectorError example_collector)) = 1
   \<and> hd (fst (Collect_from example_collector (Inr example_metrics :: string + sipMetrics))) =
       gauge scrape_error 0 [''sip'']
   \<and> length (fst (Collect_from example_collector (Inr example_metrics :: string + sipMetrics))) = 16
   \<and> snd (Collect_from example_collector (Inr example_metrics :: string + sipMetrics)) = None"
  using example_health
    Collect_from_success [OF example_health, where ?'a = string and metrics = example_metrics]
  by (simp add: injected_fields updateMetrics_def updateMetrics_stmts_present exec_all_Inr)

text \<open>
  C10. \<^verbatim>\<open>collectSipMetrics\<close> returns no error, whatever the runner returns. So \<^verbatim>\<open>Collect\<close> always
  takes the success branch: it sends the health sample with value 0, then what
  \<^verbatim>\<open>updateMetrics\<close> sends on the fragments of the runner, and never the health sample with
  value 1.
\<close>

theorem Collect_always_success:
  assumes "length (variableLabels (collectorError c)) = 1"
  shows "\<not> isl (collectSipMetrics r :: 'e + sipMetrics)
       \<and> sipCollector_Collect c =
           (gauge (collectorError c) 0 [sipCollector_Name c]
              # fst (updateMetrics c \<lparr>PeersInfo = runPeersInfo (cmdRunner c),
                       SipChannelsInfo = runSipChannelsInfo (cmdRunner c),
                       UsersInfo = runUsersInfo (cmdRunner c),
                       RegistriesInfo = runRegistriesInfo (cmdRunner c)\<rparr>),
            snd (updateMetrics c \<lparr>PeersInfo = runPeersInfo (cmdRunner c),
                       SipChannelsInfo = runSipChannelsInfo (cmdRunner c),
                       UsersInfo = runUsersInfo (cmdRunner c),
                       RegistriesInfo = runRegistriesInfo (cmdRunner c)\<rparr>))
       \<and> gauge (collectorError c) 1 [sipCollector_Name c] \<notin> set (fst (sipCollector_Collect c))"
proof -
  let ?vals = "\<lparr>PeersInfo = runPeersInfo (cmdRunner c),
                SipChannelsInfo = runSipChannelsInfo (cmdRunner c),
                UsersInfo = runUsersInfo (cmdRunner c),
                RegistriesInfo = runRegistriesInfo (cmdRunner c)\<rparr>"
  have a: "\<not> isl (collectSipMetrics r :: 'e + sipMetrics)"
    by (simp add: collectSipMetrics_def)
  have b: "sipCollector_Collect c =
           (gauge (collectorError c) 0 [sipCollector_Name c] # fst (updateMetrics c ?vals),
            snd (updateMetrics c ?vals))"
    using assms
    by (simp add: sipCollector_Collect_def collectSipMetrics_def Collect_from_def exec_head_ok
          updateMetrics_def)
  have "gauge (collectorError c) 1 [sipCollector_Name c] \<notin> set (fst (sipCollector_Collect c))"
  proof
    assume "gauge (collectorError c) 1 [sipCollector_Name c] \<in> set (fst (sipCollector_Collect c))"
    then have "gauge (collectorError c) 1 [sipCollector_Name c]
        \<in> set (fst (exec (updateMetrics_stmts c ?vals)))"
      by (simp add: b updateMetrics_def)
    from exec_sent_subset [OF this] show False
      by (simp add: updateMetrics_stmts_no_failure_sample)
  qed
  with a b show ?thesis by blast
qed

theorem Collect_always_success_witness:
  "length (variableLabels (collectorError example_collector)) = 1
   \<and> \<not> isl (collectSipMetrics all_nil :: string + sipMetrics)
   \<and> hd (fst (sipCollector_Collect example_collector)) = gauge scrape_error 0 [''sip'']
   \<and> length (fst (sipCollector_Collect example_collector)) = 16
   \<and> snd (sipCollector_Collect example_collector) = None
   \<and> gauge scrape_error 1 [''sip''] \<notin> set (fst (sipCollector_Collect example_collector))"
  using example_health
    Collect_always_success [OF example_health, where ?'e = string and r = all_nil]
  by (simp add: injected_fields sipCollector_Name_def updateMetrics_def updateMetrics_stmts_present
        exec_all_Inr)

subsection \<open>Label values\<close>

lemma Collect_from_arity:
  assumes "m \<in> set (fst (Collect_from c res))"
  shows "length (labelValues m) = length (variableLabels (desc m))"
proof -
  have "\<exists>d vt v lvs. Inr m = MustNewConstMetric d vt v lvs"
  proof (cases res)
    case (Inl e)
    with assms have "Inr m \<in> set [MustNewConstMetric (collectorError c) GaugeValue 1 [sipCollector_Name c]]"
      by (auto simp: Collect_from_def dest: exec_sent_subset)
    then show ?thesis by auto
  next
    case (Inr metrics)
    with assms have "Inr m \<in> set (MustNewConstMetric (collectorError c) GaugeValue 0 [sipCollector_Name c]
        # updateMetrics_stmts c metrics)"
      by (auto simp: Collect_from_def dest: exec_sent_subset)
    then show ?thesis
      by (auto dest!: updateMetrics_stmts_cases intro: sym)
  qed
  then obtain d vt v lvs where "MustNewConstMetric d vt v lvs = Inr m" by metis
  from MustNewConstMetric_Inr [OF this] show ?thesis by simp
qed

text \<open>
  C7. Every sample \<^verbatim>\<open>Collect\<close> sends, on either branch, has as many label values as its
  descriptor has label names; a sample on the peer-status or the registration-status
  descriptor has two. For the descriptors the collector owns, the check of the count
  never fails in \<^verbatim>\<open>updateMetrics\<close>.
\<close>

theorem emitted_label_arity:
  assumes "m \<in> set (fst (Collect_from (NewSipCollector p r ce) res))"
  shows "length (labelValues m) = length (variableLabels (desc m))
       \<and> (desc m = peerStatus (NewSipCollector p r ce) \<or> desc m = registrationStatus (NewSipCollector p r ce)
            \<longrightarrow> length (labelValues m) = 2)
       \<and> Inl InconsistentCardinality \<notin> set (updateMetrics_stmts (NewSipCollector p r ce) vals)"
  using Collect_from_arity [OF assms] updateMetrics_stmts_owned_ok [of p r ce vals]
  by (auto simp: owned_labels)

theorem emitted_label_arity_witness:
  "gauge (peerStatus example_collector) 1 [''alice'', ''OK'']
     \<in> set (fst (Collect_from example_collector (Inr example_metrics :: string + sipMetrics)))
   \<and> length (labelValues (gauge (peerStatus example_collector) 1 [''alice'', ''OK''])) = 2
   \<and> length (variableLabels (peerStatus example_collector)) = 2"
proof -
  have h: "gauge (peerStatus example_collector) 1 [''alice'', ''OK'']
     \<in> set (fst (Collect_from example_collector (Inr example_metrics :: string + sipMetrics)))"
    by (simp add: Collect_from_example updateMetrics_def updateMetrics_stmts_present exec_all_Inr)
  from emitted_label_arity [OF h, where vals = example_metrics] h show ?thesis
    by simp
qed

subsection \<open>The fetch\<close>

text \<open>
  C4, as the claim states it: the fetch returns an error whenever one of the four queries
  fails. A query returns a pointer and no error; the one sign of failure its result can
  carry is \<^verbatim>\<open>nil\<close>. With all four queries returning \<^verbatim>\<open>nil\<close> the fetch still returns no error.
\<close>

theorem collectSipMetrics_nil_fragments_no_error:
  "runPeersInfo all_nil = None \<and> runSipChannelsInfo all_nil = None \<and> runUsersInfo all_nil = None
   \<and> runRegistriesInfo all_nil = None
   \<and> \<not> isl (collectSipMetrics all_nil :: string + sipMetrics)"
  by (simp add: collectSipMetrics_def)

text \<open>
  C4, amended: the fetch returns no error for any runner. Its result is the snapshot
  holding the four fragments as the queries returned them, \<^verbatim>\<open>nil\<close> ones included.
\<close>

theorem collectSipMetrics_total:
  "\<exists>metrics. (collectSipMetrics r :: 'e + sipMetrics) = Inr metrics
     \<and> PeersInfo metrics = runPeersInfo r \<and> SipChannelsInfo metrics = runSipChannelsInfo r
     \<and> UsersInfo metrics = runUsersInfo r \<and> RegistriesInfo metrics = runRegistriesInfo r"
  by (simp add: collectSipMetrics_def)

subsection \<open>The domain samples\<close>





text \<open>
  The descriptor \<open>totalPeers\<close> is built by the constructor and sent by \<^verbatim>\<open>Describe\<close>, but no
  statement of \<^verbatim>\<open>updateMetrics\<close> uses it: no sample of any scrape is on it.
\<close>

lemma totalPeers_never_collected:
  "totalPeers (NewSipCollector p r ce) \<notin> desc ` set (fst (sipCollector_Collect (NewSipCollector p r ce)))"
proof
  let ?c = "NewSipCollector p r ce"
  let ?vals = "\<lparr>PeersInfo = runPeersInfo r, SipChannelsInfo = runSipChannelsInfo r,
                UsersInfo = runUsersInfo r, RegistriesInfo = runRegistriesInfo r\<rparr>"
  assume "totalPeers ?c \<in> desc ` set (fst (sipCollector_Collect ?c))"
  then obtain m where m: "m \<in> set (fst (sipCollector_Collect ?c))" and d: "desc m = totalPeers ?c"
    by auto
  from m have "Inr m \<in> set (MustNewConstMetric ce GaugeValue 0 [sipCollector_Name ?c]
        # updateMetrics_stmts ?c ?vals)"
    by (auto simp: sipCollector_Collect_def collectSipMetrics_def Collect_from_def injected_fields
          dest: exec_sent_subset)
  then consider "MustNewConstMetric ce GaugeValue 0 [sipCollector_Name ?c] = Inr m"
    | "Inr m \<in> set (updateMetrics_stmts ?c ?vals)"
    by auto
  then show False
  proof cases
    case 1
    from MustNewConstMetric_Inr [OF 1]
    have "desc m = ce" and "length (variableLabels ce) = 1"
      by simp_all
    with owned_labels(1) [of p r ce] d show ?thesis
      by auto
  next
    case 2
    from updateMetrics_stmts_not_totalPeers [OF 2] d show ?thesis
      by simp
  qed
qed

text \<open>
  C3. The claim has every derived metric sent, the count of all peers on \<open>totalPeers\<close>
  included. On the example snapshot \<^verbatim>\<open>Collect\<close> sends sixteen samples and returns; their
  metric names are listed below. \<open>totalPeers\<close>, the first descriptor \<^verbatim>\<open>Describe\<close> sends,
  is the descriptor of none of them.
\<close>

theorem totalPeers_described_not_collected:
  "map (\<lambda>m. fqName (desc m)) (fst (sipCollector_Collect example_collector)) =
      [''asterisk_scrape_collector_error'',
       ''asterisk_sip_current_monitored_online'',
       ''asterisk_sip_current_monitored_offline'',
       ''asterisk_sip_current_unmonitored_online'',
       ''asterisk_sip_current_unmonitored_offline'',
       ''asterisk_sip_current_unknown'',
       ''asterisk_sip_current_qualified'',
       ''asterisk_sip_peer_status'',
       ''asterisk_sip_peer_status'',
       ''asterisk_sip_active_dialogs'',
       ''asterisk_sip_active_subscriptions'',
       ''asterisk_sip_active_channels'',
       ''asterisk_sip_users'',
       ''asterisk_sip_total_registrations'',
       ''asterisk_sip_registered_count'',
       ''asterisk_sip_unregistered_count'']
   \<and> snd (sipCollector_Collect example_collector) = None
   \<and> fqName (totalPeers example_collector) = ''asterisk_sip_current_peers''
   \<and> hd (fst (Describe example_collector)) = totalPeers example_collector
   \<and> filter (\<lambda>m. desc m = totalPeers example_collector) (fst (sipCollector_Collect example_collector)) = []"
proof -
  have "desc m \<noteq> totalPeers example_collector"
    if "m \<in> set (fst (sipCollector_Collect example_collector))" for m
  proof
    assume "desc m = totalPeers example_collector"
    with that have "totalPeers example_collector
        \<in> desc ` set (fst (sipCollector_Collect example_collector))"
      by (metis imageI)
    with totalPeers_never_collected [of "''asterisk''" example_runner scrape_error]
    show False by simp
  qed
  then have "filter (\<lambda>m. desc m = totalPeers example_collector)
               (fst (sipCollector_Collect example_collector)) = []"
    by (simp add: filter_empty_conv)
  moreover have "fqName (totalPeers example_collector) = ''asterisk_sip_current_peers''"
    by (simp add: NewSipCollector_def NewDesc_def BuildFQName_def)
  moreover have "hd (fst (Describe example_collector)) = totalPeers example_collector"
    by (simp add: Describe_def)
  moreover have "map (\<lambda>m. fqName (desc m)) (fst (sipCollector_Collect example_collector)) =
      [''asterisk_scrape_collector_error'',
       ''asterisk_sip_current_monitored_online'',
       ''asterisk_sip_current_monitored_offline'',
       ''asterisk_sip_current_unmonitored_online'',
       ''asterisk_sip_current_unmonitored_offline'',
       ''asterisk_sip_current_unknown'',
       ''asterisk_sip_current_qualified'',
       ''asterisk_sip_peer_status'',
       ''asterisk_sip_peer_status'',
       ''asterisk_sip_active_dialogs'',
       ''asterisk_sip_active_subscriptions'',
       ''asterisk_sip_active_channels'',
       ''asterisk_sip_users'',
       ''asterisk_sip_total_registrations'',
       ''asterisk_sip_registered_count'',
       ''asterisk_sip_unregistered_count'']
   \<and> snd (sipCollector_Collect example_collector) = None"
    unfolding sipCollector_Collect_present [OF scrape_error_labels]
    by (simp add: NewDesc_def BuildFQName_def)
  ultimately show ?thesis
    by blast
qed

subsection \<open>Descriptors\<close>

text \<open>
  C8. \<^verbatim>\<open>Describe\<close> sends the sixteen descriptors the collector owns, each once and in the
  order of the fields, and does not panic. It does not read the runner: a collector
  with another runner describes the same. The sixteen metric names of a constructed
  collector are pairwise different. (\<^verbatim>\<open>Collect\<close> returns what it sent and leaves the
  collector as it was, so a scrape cannot change what \<^verbatim>\<open>Describe\<close> sends.)
\<close>

theorem Describe_owned_once:
  "Describe c =
     ([totalPeers c, totalMonitoredOnline c, totalMonitoredOffline c, totalUnmonitoredOnline c,
       totalUnmonitoredOffline c, totalSipStatusUnknown c, totalSipStatusQualified c, peerStatus c,
       dialogsActive c, subscriptionsActive c, channelsActive c, users c, totalRegistrations c,
       onlineRegistrationsCount c, offlineRegistrationsCount c, registrationStatus c], None)
   \<and> Describe (c\<lparr>cmdRunner := r'\<rparr>) = Describe c
   \<and> distinct (map fqName (fst (Describe (NewSipCollector p r ce))))"
  by (simp add: Describe_def NewSipCollector_def NewDesc_def BuildFQName_sip_inj)

text \<open>
  C9. Two collectors built with the same prefix differ in nothing but the runner and the
  health descriptor they were given: each owned descriptor has the same name, help text
  and label names in both, and \<^verbatim>\<open>Describe\<close> sends the same for both.
\<close>

theorem NewSipCollector_same_prefix:
  "NewSipCollector p r1 ce1 = (NewSipCollector p r2 ce2)\<lparr>cmdRunner := r1, collectorError := ce1\<rparr>
   \<and> Describe (NewSipCollector p r1 ce1) = Describe (NewSipCollector p r2 ce2)"
  by (simp add: NewSipCollector_def Describe_def)

end
